theory Spec2Isabelle
  imports Complex_Main
begin

section \<open>Protocol: enumerations and message envelopes (core/protocol.py)\<close>

text \<open>
  The enumerations of \<^verbatim>\<open>protocol.py\<close>. Both \<^verbatim>\<open>ModelType\<close> and \<^verbatim>\<open>TaskType\<close> have a
  member called \<^verbatim>\<open>EMBEDDING\<close>; as in the Python they are told apart by the qualified
  names \<open>ModelType.EMBEDDING\<close> and \<open>TaskType.EMBEDDING\<close>.
\<close>

datatype MCPPriority = LOW | NORMAL | HIGH | CRITICAL

datatype ModelType =
  GPT4 | GPT35_TURBO | CLAUDE_3_OPUS | CLAUDE_3_SONNET | GEMINI_PRO | EMBEDDING

datatype TaskType =
  CREATIVE | REASONING | CLASSIFICATION | EXTRACTION | SUMMARIZATION | EMBEDDING | GENERAL

text \<open>
  A Python \<^verbatim>\<open>str\<close> is a sequence of Unicode code points and \<^verbatim>\<open>len\<close> counts code
  points, so a \<^verbatim>\<open>str\<close> is modelled as the list of its code points. The string
  constants the program itself writes (enum values, dictionary keys, messages) are
  ASCII and are kept as HOL strings; \<open>lit\<close> turns one into a Python \<^verbatim>\<open>str\<close>.
\<close>

type_synonym pystr = "nat list"

definition lit :: "string \<Rightarrow> pystr" where
  "lit s = map of_char s"

text \<open>The string or number each enum member carries (its \<^verbatim>\<open>value\<close> attribute).\<close>

fun ModelType_value :: "ModelType \<Rightarrow> string" where
  "ModelType_value GPT4 = ''gpt-4''"
| "ModelType_value GPT35_TURBO = ''gpt-3.5-turbo''"
| "ModelType_value CLAUDE_3_OPUS = ''claude-3-opus''"
| "ModelType_value CLAUDE_3_SONNET = ''claude-3-sonnet''"
| "ModelType_value GEMINI_PRO = ''gemini-pro''"
| "ModelType_value ModelType.EMBEDDING = ''text-embedding-3-small''"

fun TaskType_value :: "TaskType \<Rightarrow> string" where
  "TaskType_value CREATIVE = ''creative''"
| "TaskType_value REASONING = ''reasoning''"
| "TaskType_value CLASSIFICATION = ''classification''"
| "TaskType_value EXTRACTION = ''extraction''"
| "TaskType_value SUMMARIZATION = ''summarization''"
| "TaskType_value TaskType.EMBEDDING = ''embedding''"
| "TaskType_value GENERAL = ''general''"

fun MCPPriority_value :: "MCPPriority \<Rightarrow> int" where
  "MCPPriority_value LOW = 0"
| "MCPPriority_value NORMAL = 1"
| "MCPPriority_value HIGH = 2"
| "MCPPriority_value CRITICAL = 3"

text \<open>
  Values of type \<^verbatim>\<open>Any\<close> (metadata, shared memory, the entries of a transport
  dictionary). A \<^verbatim>\<open>float\<close> is modelled by the real number it denotes.
\<close>

datatype pyval =
  PNone
| PBool bool
| PInt int
| PFloat real
| PStr pystr
| PList "pyval list"
| PDict "(pystr \<times> pyval) list"

text \<open>
  A naive \<^verbatim>\<open>datetime\<close> (what \<^verbatim>\<open>datetime.now()\<close> returns) and the text its
  \<^verbatim>\<open>isoformat()\<close> produces: \<^verbatim>\<open>YYYY-MM-DDTHH:MM:SS\<close>, followed by \<^verbatim>\<open>.ffffff\<close> when
  the microsecond is not zero.
\<close>

record datetime =
  year :: nat
  month :: nat
  day :: nat
  hour :: nat
  minute :: nat
  second :: nat
  microsecond :: nat

fun zero_padded :: "nat \<Rightarrow> nat \<Rightarrow> pystr" where
  "zero_padded 0 n = []"
| "zero_padded (Suc w) n = zero_padded w (n div 10) @ [48 + n mod 10]"

definition isoformat :: "datetime \<Rightarrow> pystr" where
  "isoformat d =
     zero_padded 4 (year d) @ lit ''-'' @ zero_padded 2 (month d) @ lit ''-'' @
     zero_padded 2 (day d) @ lit ''T'' @ zero_padded 2 (hour d) @ lit '':'' @
     zero_padded 2 (minute d) @ lit '':'' @ zero_padded 2 (second d) @
     (if microsecond d = 0 then [] else lit ''.'' @ zero_padded 6 (microsecond d))"

text \<open>\<^verbatim>\<open>MCPContext\<close>: the conversation state a request may carry.\<close>

record MCPContext =
  conversation_id :: pystr
  session_id :: "pystr option"
  history :: "(pystr \<times> pyval) list list"
  shared_memory :: "(pystr \<times> pyval) list"
  metadata :: "(pystr \<times> pyval) list"

text \<open>
  \<^verbatim>\<open>MCPResponse\<close> and \<^verbatim>\<open>MCPRequest\<close> share field names (\<^verbatim>\<open>request_id\<close>,
  \<^verbatim>\<open>content\<close>, \<^verbatim>\<open>context\<close>, \<^verbatim>\<open>timestamp\<close>, \<^verbatim>\<open>metadata\<close>); the response's
  fields are written with the prefix \<open>MCPResponse.\<close> below.
\<close>

record MCPResponse =
  request_id :: pystr
  content :: pystr
  model_used :: ModelType
  success :: bool
  latency_ms :: real
  tokens_used :: int
  cached :: bool
  "context" :: "MCPContext option"
  error :: "pystr option"
  fallback_used :: bool
  fallback_model :: "ModelType option"
  timestamp :: datetime
  metadata :: "(pystr \<times> pyval) list"

record MCPRequest =
  request_id :: pystr
  content :: pystr
  task_type :: TaskType
  model :: "ModelType option"
  priority :: MCPPriority
  require_reasoning :: bool
  require_creativity :: bool
  max_tokens :: "int option"
  temperature :: real
  "context" :: "MCPContext option"
  use_context :: bool
  cache_enabled :: bool
  cache_ttl :: int
  agent_name :: "pystr option"
  timestamp :: datetime
  metadata :: "(pystr \<times> pyval) list"

section \<open>Router (core/router.py)\<close>

text \<open>
  \<^verbatim>\<open>self.model_health\<close> is a dictionary from \<^verbatim>\<open>ModelType\<close> to \<^verbatim>\<open>bool\<close>;
  \<^verbatim>\<open>__init__\<close> seeds it with \<^verbatim>\<open>True\<close> for every member of the enum.
\<close>

type_synonym model_health = "ModelType \<rightharpoonup> bool"

definition init_model_health :: model_health where
  "init_model_health = (\<lambda>m. Some True)"

definition is_model_healthy :: "model_health \<Rightarrow> ModelType \<Rightarrow> bool" where
  "is_model_healthy h m = (case h m of None \<Rightarrow> False | Some b \<Rightarrow> b)"

definition mark_model_unhealthy :: "model_health \<Rightarrow> ModelType \<Rightarrow> model_health" where
  "mark_model_unhealthy h m = h(m \<mapsto> False)"

definition mark_model_healthy :: "model_health \<Rightarrow> ModelType \<Rightarrow> model_health" where
  "mark_model_healthy h m = h(m \<mapsto> True)"

text \<open>
  \<^verbatim>\<open>_intelligent_selection\<close> (an Isabelle name cannot start with an underscore):
  the ladder of \<^verbatim>\<open>if\<close>/\<^verbatim>\<open>elif\<close> in the order of the source.
\<close>

definition intelligent_selection :: "MCPRequest \<Rightarrow> ModelType" where
  "intelligent_selection request =
     (if require_creativity request then GPT4
      else if require_reasoning request then CLAUDE_3_OPUS
      else if task_type request = CREATIVE then GPT4
      else if task_type request = REASONING then CLAUDE_3_OPUS
      else if task_type request = CLASSIFICATION then GPT35_TURBO
      else if task_type request = EXTRACTION then
        (if length (content request) > 2000 then CLAUDE_3_SONNET else GPT35_TURBO)
      else if task_type request = SUMMARIZATION then GEMINI_PRO
      else GPT35_TURBO)"

text \<open>
  \<^verbatim>\<open>select_model\<close>. \<^verbatim>\<open>if request.model:\<close> tests that the field is not \<^verbatim>\<open>None\<close>
  (an enum member is always truthy). The log calls have no effect on the result.
\<close>

definition select_model :: "model_health \<Rightarrow> MCPRequest \<Rightarrow> ModelType" where
  "select_model h request =
     (let after_override =
        (if task_type request = TaskType.EMBEDDING then ModelType.EMBEDDING
         else intelligent_selection request)
      in case model request of
           Some m \<Rightarrow> if is_model_healthy h m then m else after_override
         | None \<Rightarrow> after_override)"

text \<open>
  \<^verbatim>\<open>get_fallback_model\<close>: the local dictionary \<^verbatim>\<open>fallback_map\<close>, then one lookup
  and one health test. \<^verbatim>\<open>fallback_map.get\<close> gives \<^verbatim>\<open>None\<close> for the embedding model.
\<close>

fun fallback_map :: "ModelType \<Rightarrow> ModelType option" where
  "fallback_map GPT4 = Some CLAUDE_3_OPUS"
| "fallback_map GPT35_TURBO = Some CLAUDE_3_SONNET"
| "fallback_map CLAUDE_3_OPUS = Some GPT4"
| "fallback_map CLAUDE_3_SONNET = Some GPT35_TURBO"
| "fallback_map GEMINI_PRO = Some GPT4"
| "fallback_map ModelType.EMBEDDING = None"

definition get_fallback_model :: "model_health \<Rightarrow> ModelType \<Rightarrow> ModelType option" where
  "get_fallback_model h primary_model =
     (case fallback_map primary_model of
        Some fallback \<Rightarrow> if is_model_healthy h fallback then Some fallback else None
      | None \<Rightarrow> None)"

text \<open>The capability matrix \<^verbatim>\<open>MODEL_CAPABILITIES\<close>, a class attribute of the router.\<close>

record capability =
  tasks :: "TaskType list"
  creativity :: real
  reasoning :: real
  speed :: real
  context_window :: int

fun MODEL_CAPABILITIES :: "ModelType \<Rightarrow> capability option" where
  "MODEL_CAPABILITIES GPT4 = Some
     \<lparr>tasks = [CREATIVE, REASONING, SUMMARIZATION, GENERAL],
      creativity = 0.9, reasoning = 0.95, speed = 0.5, context_window = 128000\<rparr>"
| "MODEL_CAPABILITIES GPT35_TURBO = Some
     \<lparr>tasks = [CLASSIFICATION, EXTRACTION, GENERAL],
      creativity = 0.7, reasoning = 0.7, speed = 0.9, context_window = 16384\<rparr>"
| "MODEL_CAPABILITIES CLAUDE_3_OPUS = Some
     \<lparr>tasks = [REASONING, CREATIVE, SUMMARIZATION],
      creativity = 0.95, reasoning = 0.95, speed = 0.4, context_window = 200000\<rparr>"
| "MODEL_CAPABILITIES CLAUDE_3_SONNET = Some
     \<lparr>tasks = [CLASSIFICATION, EXTRACTION, REASONING],
      creativity = 0.8, reasoning = 0.85, speed = 0.8, context_window = 200000\<rparr>"
| "MODEL_CAPABILITIES GEMINI_PRO = Some
     \<lparr>tasks = [CREATIVE, REASONING, GENERAL],
      creativity = 0.85, reasoning = 0.85, speed = 0.7, context_window = 1000000\<rparr>"
| "MODEL_CAPABILITIES ModelType.EMBEDDING = Some
     \<lparr>tasks = [TaskType.EMBEDDING],
      creativity = 0.0, reasoning = 0.0, speed = 1.0, context_window = 8191\<rparr>"

text \<open>Python's \<^verbatim>\<open>str\<close> of an integer, for the numbers written into messages.\<close>

fun str_nat :: "nat \<Rightarrow> string" where
  "str_nat n =
     (if n < 10 then [char_of (48 + n)]
      else str_nat (n div 10) @ [char_of (48 + n mod 10)])"

declare str_nat.simps [simp del]

definition str_int :: "int \<Rightarrow> string" where
  "str_int i = (if i < 0 then ''-'' @ str_nat (nat (- i)) else str_nat (nat i))"

text \<open>
  The truthiness of an \<^verbatim>\<open>Optional[int]\<close> in a condition: \<^verbatim>\<open>None\<close> and \<^verbatim>\<open>0\<close>
  are false, every other integer is true.
\<close>

definition truthy :: "int option \<Rightarrow> bool" where
  "truthy v = (case v of None \<Rightarrow> False | Some n \<Rightarrow> n \<noteq> 0)"

text \<open>
  \<^verbatim>\<open>validate_routing_decision\<close>. The table read through \<^verbatim>\<open>self.MODEL_CAPABILITIES\<close>
  is a parameter, so that the branch for a model without an entry can be reached
  (the table of the source has an entry for every model). The result is the returned
  pair \<^verbatim>\<open>(is_valid, reason)\<close> together with the warnings the call logs.
\<close>

definition validate_routing_decision ::
  "(ModelType \<rightharpoonup> capability) \<Rightarrow> model_health \<Rightarrow> MCPRequest \<Rightarrow> ModelType
     \<Rightarrow> (bool \<times> string option) \<times> string list" where
  "validate_routing_decision table h request selected_model =
     (if \<not> is_model_healthy h selected_model then
        ((False, Some (''Selected model '' @ ModelType_value selected_model @ '' is unhealthy'')), [])
      else case table selected_model of
        None \<Rightarrow> ((False, Some (''Unknown model '' @ ModelType_value selected_model)), [])
      | Some capabilities \<Rightarrow>
          (let warnings =
             (if task_type request \<notin> set (tasks capabilities) then
                [''Model '' @ ModelType_value selected_model @ '' may not be optimal for '' @
                 TaskType_value (task_type request)]
              else [])
           in if truthy (max_tokens request) \<and>
                 the (max_tokens request) > context_window capabilities then
                ((False, Some (''Request max_tokens ('' @ str_int (the (max_tokens request)) @
                   '') exceeds context window ('' @ str_int (context_window capabilities) @
                   '')'')), warnings)
              else ((True, None), warnings)))"

section \<open>Protocol validator and serialisation (core/protocol.py)\<close>

text \<open>
  \<^verbatim>\<open>MCPProtocolValidator.validate_request\<close>: four tests in the order of the source.
  \<^verbatim>\<open>not request.content\<close> holds for the empty string;
  \<^verbatim>\<open>request.max_tokens and request.max_tokens <= 0\<close> first tests the truthiness of
  \<^verbatim>\<open>max_tokens\<close>.
\<close>

definition validate_request :: "MCPRequest \<Rightarrow> bool \<times> string option" where
  "validate_request request =
     (if content request = [] \<and> task_type request \<noteq> TaskType.EMBEDDING then
        (False, Some ''Request content cannot be empty'')
      else if truthy (max_tokens request) \<and> the (max_tokens request) \<le> 0 then
        (False, Some ''max_tokens must be positive'')
      else if \<not> (0 \<le> temperature request \<and> temperature request \<le> 2.0) then
        (False, Some ''temperature must be between 0 and 2.0'')
      else if cache_ttl request < 0 then
        (False, Some ''cache_ttl cannot be negative'')
      else (True, None))"

text \<open>
  \<^verbatim>\<open>MCPProtocolValidator.validate_response\<close>; \<^verbatim>\<open>not response.error\<close> holds for
  \<^verbatim>\<open>None\<close> and for the empty string.
\<close>

definition validate_response :: "MCPResponse \<Rightarrow> bool \<times> string option" where
  "validate_response response =
     (if \<not> success response \<and>
         (MCPResponse.error response = None \<or> MCPResponse.error response = Some []) then
        (False, Some ''Failed response must include error message'')
      else if latency_ms response < 0 then
        (False, Some ''latency_ms cannot be negative'')
      else if tokens_used response < 0 then
        (False, Some ''tokens_used cannot be negative'')
      else (True, None))"

text \<open>
  \<^verbatim>\<open>MCPRequest.__post_init__\<close>: a request built without a context and with
  \<^verbatim>\<open>use_context\<close> set gets a fresh \<^verbatim>\<open>MCPContext()\<close>, whose conversation id is a new
  UUID (passed in as \<open>new_id\<close>).
\<close>

definition new_MCPContext :: "pystr \<Rightarrow> MCPContext" where
  "new_MCPContext new_id =
     \<lparr>conversation_id = new_id, session_id = None, history = [], shared_memory = [],
      metadata = []\<rparr>"

definition post_init :: "pystr \<Rightarrow> MCPRequest \<Rightarrow> MCPRequest" where
  "post_init new_id request =
     (if context request = None \<and> use_context request
      then request\<lparr>context := Some (new_MCPContext new_id)\<rparr>
      else request)"

text \<open>
  \<^verbatim>\<open>MCPRequest.to_dict\<close> and \<^verbatim>\<open>MCPResponse.to_dict\<close>: the dictionary literal of
  the source, key by key in its order.
\<close>

definition MCPRequest_to_dict :: "MCPRequest \<Rightarrow> (string \<times> pyval) list" where
  "MCPRequest_to_dict r =
     [(''request_id'', PStr (request_id r)),
      (''content'', PStr (content r)),
      (''task_type'', PStr (lit (TaskType_value (task_type r)))),
      (''model'', case model r of Some m \<Rightarrow> PStr (lit (ModelType_value m)) | None \<Rightarrow> PNone),
      (''priority'', PInt (MCPPriority_value (priority r))),
      (''require_reasoning'', PBool (require_reasoning r)),
      (''require_creativity'', PBool (require_creativity r)),
      (''max_tokens'', case max_tokens r of Some n \<Rightarrow> PInt n | None \<Rightarrow> PNone),
      (''temperature'', PFloat (temperature r)),
      (''cache_enabled'', PBool (cache_enabled r)),
      (''cache_ttl'', PInt (cache_ttl r)),
      (''agent_name'', case agent_name r of Some a \<Rightarrow> PStr a | None \<Rightarrow> PNone),
      (''timestamp'', PStr (isoformat (timestamp r))),
      (''metadata'', PDict (metadata r))]"

definition MCPResponse_to_dict :: "MCPResponse \<Rightarrow> (string \<times> pyval) list" where
  "MCPResponse_to_dict r =
     [(''request_id'', PStr (MCPResponse.request_id r)),
      (''content'', PStr (MCPResponse.content r)),
      (''model_used'', PStr (lit (ModelType_value (model_used r)))),
      (''success'', PBool (success r)),
      (''latency_ms'', PFloat (latency_ms r)),
      (''tokens_used'', PInt (tokens_used r)),
      (''cached'', PBool (cached r)),
      (''error'', case MCPResponse.error r of Some e \<Rightarrow> PStr e | None \<Rightarrow> PNone),
      (''fallback_used'', PBool (fallback_used r)),
      (''fallback_model'',
         case fallback_model r of Some m \<Rightarrow> PStr (lit (ModelType_value m)) | None \<Rightarrow> PNone),
      (''timestamp'', PStr (isoformat (MCPResponse.timestamp r))),
      (''metadata'', PDict (MCPResponse.metadata r))]"

section \<open>Sample values\<close>

text \<open>
  A request with every field at the default of the dataclass, after
  \<^verbatim>\<open>__post_init__\<close>, and a response with the defaults of its optional fields.
\<close>

definition sample_time :: datetime where
  "sample_time =
     \<lparr>year = 2024, month = 5, day = 17, hour = 9, minute = 30, second = 0,
      microsecond = 250000\<rparr>"

definition default_request :: MCPRequest where
  "default_request = post_init (lit ''c-1'')
     \<lparr>request_id = lit ''r-1'', content = [], task_type = GENERAL, model = None,
      priority = NORMAL, require_reasoning = False, require_creativity = False,
      max_tokens = None, temperature = 0.7, context = None, use_context = True,
      cache_enabled = True, cache_ttl = 3600, agent_name = None,
      timestamp = sample_time, metadata = []\<rparr>"

definition default_response :: MCPResponse where
  "default_response =
     \<lparr>MCPResponse.request_id = lit ''r-1'', MCPResponse.content = lit ''done'',
      model_used = GPT4, success = True, latency_ms = 0.0, tokens_used = 0, cached = False,
      MCPResponse.context = None, error = None, fallback_used = False,
      fallback_model = None, MCPResponse.timestamp = sample_time,
      MCPResponse.metadata = []\<rparr>"

text \<open>Requests and health states used as concrete inputs below.\<close>

definition gpt4_down :: model_health where
  "gpt4_down = mark_model_unhealthy init_model_health GPT4"

definition gpt4_and_embedding_down :: model_health where
  "gpt4_and_embedding_down = mark_model_unhealthy gpt4_down ModelType.EMBEDDING"

definition embedding_request :: MCPRequest where
  "embedding_request = default_request\<lparr>task_type := TaskType.EMBEDDING, model := Some GPT4\<rparr>"

definition poem_request :: MCPRequest where
  "poem_request = default_request
     \<lparr>content := lit ''Write a poem'', task_type := CREATIVE, require_creativity := True,
      model := Some GPT4\<rparr>"

definition classification_request :: MCPRequest where
  "classification_request = default_request
     \<lparr>content := lit ''Spam or not?'', task_type := CLASSIFICATION,
      require_creativity := True\<rparr>"

definition extraction_request :: "nat \<Rightarrow> MCPRequest" where
  "extraction_request n = default_request
     \<lparr>content := replicate n 97, task_type := EXTRACTION\<rparr>"

definition zero_tokens_request :: MCPRequest where
  "zero_tokens_request = default_request
     \<lparr>content := lit ''Summarize this document'', task_type := SUMMARIZATION,
      max_tokens := Some 0\<rparr>"

definition boundary_request :: MCPRequest where
  "boundary_request = default_request
     \<lparr>content := lit ''Spam or not?'', task_type := CLASSIFICATION,
      max_tokens := Some 128000\<rparr>"

definition request_with_context :: MCPRequest where
  "request_with_context = default_request\<lparr>content := lit ''hello''\<rparr>"

definition request_without_context :: MCPRequest where
  "request_without_context =
     request_with_context\<lparr>context := None, use_context := False\<rparr>"

definition response_with_context :: MCPResponse where
  "response_with_context =
     default_response\<lparr>MCPResponse.context := Some (new_MCPContext (lit ''c-1''))\<rparr>"

section \<open>Shared lemmas\<close>

lemma lit_eq_iff: "lit s = lit t \<longleftrightarrow> s = t"
  by (simp add: lit_def inj_map_eq_map inj_of_char)

lemma ModelType_value_inj: "ModelType_value a = ModelType_value b \<longleftrightarrow> a = b"
  by (cases a; cases b; simp)

lemma TaskType_value_inj: "TaskType_value a = TaskType_value b \<longleftrightarrow> a = b"
  by (cases a; cases b; simp)

lemma MCPPriority_value_inj: "MCPPriority_value a = MCPPriority_value b \<longleftrightarrow> a = b"
  by (cases a; cases b; simp)

lemma init_healthy: "is_model_healthy init_model_health m"
  by (simp add: is_model_healthy_def init_model_health_def)

lemma gpt4_down_healthy: "is_model_healthy gpt4_down m \<longleftrightarrow> m \<noteq> GPT4"
  by (simp add: gpt4_down_def mark_model_unhealthy_def is_model_healthy_def
        init_model_health_def)

lemma gpt4_and_embedding_down_healthy:
  "is_model_healthy gpt4_and_embedding_down m \<longleftrightarrow> m \<noteq> GPT4 \<and> m \<noteq> ModelType.EMBEDDING"
  by (simp add: gpt4_and_embedding_down_def gpt4_down_def mark_model_unhealthy_def
        is_model_healthy_def init_model_health_def)

lemma default_request_simp:
  "default_request =
     \<lparr>request_id = lit ''r-1'', content = [], task_type = GENERAL, model = None,
      priority = NORMAL, require_reasoning = False, require_creativity = False,
      max_tokens = None, temperature = 0.7,
      context = Some (new_MCPContext (lit ''c-1'')), use_context = True,
      cache_enabled = True, cache_ttl = 3600, agent_name = None,
      timestamp = sample_time, metadata = []\<rparr>"
  by (simp add: default_request_def post_init_def)

lemma intelligent_selection_not_embedding:
  "intelligent_selection r \<noteq> ModelType.EMBEDDING"
  by (simp add: intelligent_selection_def)

text \<open>
  Without a healthy override, \<^verbatim>\<open>select_model\<close> is the embedding rule followed by
  the heuristic ladder.
\<close>

lemma select_model_no_healthy_override:
  assumes "\<forall>m. model r = Some m \<longrightarrow> \<not> is_model_healthy h m"
  shows "select_model h r =
           (if task_type r = TaskType.EMBEDDING then ModelType.EMBEDDING
            else intelligent_selection r)"
  using assms by (cases "model r") (simp_all add: select_model_def)

lemma MODEL_CAPABILITIES_total:
  "\<exists>c. MODEL_CAPABILITIES m = Some c \<and> 0 < context_window c"
  by (cases m) simp_all

lemma exceeds_iff:
  assumes "0 \<le> w"
  shows "(truthy v \<and> the v > w) \<longleftrightarrow> (\<exists>n. v = Some n \<and> w < n)"
  using assms by (cases v) (auto simp add: truthy_def)

section \<open>Routing: explicit override and the embedding rule\<close>

text \<open>
  Claim C1, as stated, says that an embedding-typed request is routed to the embedding
  model whatever override it carries. The override test comes first in
  \<^verbatim>\<open>select_model\<close>: with every model healthy, an embedding-typed request that names
  \<^verbatim>\<open>GPT4\<close> is routed to \<^verbatim>\<open>GPT4\<close>.
\<close>

theorem select_model_embedding_override_counterexample:
  "task_type embedding_request = TaskType.EMBEDDING
   \<and> select_model init_model_health embedding_request = GPT4
   \<and> select_model init_model_health embedding_request \<noteq> ModelType.EMBEDDING"
  by (simp add: embedding_request_def select_model_def init_healthy)

text \<open>
  Claim C1, amended: for every request whose task type is embedding and whose explicit
  override is absent or currently unhealthy, \<^verbatim>\<open>select_model\<close> returns the embedding
  model, whatever the health of any model (the embedding model's included) and
  whatever the content.
\<close>

theorem select_model_embedding:
  assumes "task_type r = TaskType.EMBEDDING"
    and "\<forall>m. model r = Some m \<longrightarrow> \<not> is_model_healthy h m"
  shows "select_model h r = ModelType.EMBEDDING"
  using assms by (simp add: select_model_no_healthy_override)

theorem select_model_embedding_witness:
  "\<not> is_model_healthy gpt4_and_embedding_down ModelType.EMBEDDING
   \<and> select_model gpt4_and_embedding_down embedding_request = ModelType.EMBEDDING"
  using select_model_embedding [of embedding_request gpt4_and_embedding_down]
  by (simp add: embedding_request_def gpt4_and_embedding_down_healthy)

text \<open>
  Claim C2, as stated, says that an unhealthy override is never the model returned.
  The heuristic ladder does not read the health registry: with \<^verbatim>\<open>GPT4\<close> marked
  unhealthy, a creative request that names \<^verbatim>\<open>GPT4\<close> is still routed to \<^verbatim>\<open>GPT4\<close>.
\<close>

theorem select_model_unhealthy_override_counterexample:
  "model poem_request = Some GPT4
   \<and> \<not> is_model_healthy gpt4_down GPT4
   \<and> select_model gpt4_down poem_request = GPT4"
  by (simp add: poem_request_def select_model_def intelligent_selection_def
        gpt4_down_healthy)

text \<open>
  Claim C2, amended: for every request with an explicit override that is currently
  unhealthy, \<^verbatim>\<open>select_model\<close> ignores the override and returns what it returns for
  the same request without one: the embedding model for an embedding task, the result
  of heuristic selection otherwise. For a task type other than embedding it returns the
  overridden model exactly when heuristic selection picks that model.
\<close>

theorem select_model_unhealthy_override:
  assumes "model r = Some m" and "\<not> is_model_healthy h m"
  shows "select_model h r = select_model h (r\<lparr>model := None\<rparr>)
       \<and> (task_type r = TaskType.EMBEDDING \<longrightarrow> select_model h r = ModelType.EMBEDDING)
       \<and> (task_type r \<noteq> TaskType.EMBEDDING \<longrightarrow> select_model h r = intelligent_selection r)
       \<and> (task_type r \<noteq> TaskType.EMBEDDING \<longrightarrow>
            (select_model h r = m \<longleftrightarrow> intelligent_selection r = m))"
  using assms by (simp add: select_model_def intelligent_selection_def)

theorem select_model_unhealthy_override_witness:
  "select_model gpt4_down (poem_request\<lparr>task_type := SUMMARIZATION, require_creativity := False\<rparr>) =
     select_model gpt4_down
       (poem_request\<lparr>task_type := SUMMARIZATION, require_creativity := False, model := None\<rparr>)
   \<and> select_model gpt4_down
        (poem_request\<lparr>task_type := SUMMARIZATION, require_creativity := False\<rparr>) = GEMINI_PRO"
  using select_model_unhealthy_override
    [of "poem_request\<lparr>task_type := SUMMARIZATION, require_creativity := False\<rparr>"
        GPT4 gpt4_down]
  by (simp add: poem_request_def default_request_simp gpt4_down_healthy
        select_model_def intelligent_selection_def)

text \<open>
  Claim C3: for every request whose explicit override \<^verbatim>\<open>model\<close> is set and currently
  healthy, \<^verbatim>\<open>select_model\<close> returns exactly that model, whatever the task type
  (the embedding type included) and whatever \<^verbatim>\<open>require_creativity\<close> and
  \<^verbatim>\<open>require_reasoning\<close> say.
\<close>

theorem select_model_healthy_override:
  assumes "model r = Some m" and "is_model_healthy h m"
  shows "select_model h r = m"
  using assms by (simp add: select_model_def)

theorem select_model_healthy_override_witness:
  "select_model init_model_health
     (default_request\<lparr>task_type := TaskType.EMBEDDING, require_creativity := True,
        model := Some CLAUDE_3_SONNET\<rparr>) = CLAUDE_3_SONNET"
  using select_model_healthy_override
    [of "default_request\<lparr>task_type := TaskType.EMBEDDING, require_creativity := True,
        model := Some CLAUDE_3_SONNET\<rparr>" CLAUDE_3_SONNET init_model_health]
  by (simp add: init_healthy)

text \<open>
  Claim C10: for every request without an override and with a task type other than
  embedding, \<^verbatim>\<open>select_model\<close> never returns the embedding model, under every health
  state; the embedding model is returned only for an embedding task type or as a
  healthy explicit override.
\<close>

theorem select_model_embedding_only_if:
  "(model r = None \<and> task_type r \<noteq> TaskType.EMBEDDING \<longrightarrow>
      select_model h r \<noteq> ModelType.EMBEDDING)
   \<and> (select_model h r = ModelType.EMBEDDING \<longrightarrow>
        task_type r = TaskType.EMBEDDING
        \<or> (model r = Some ModelType.EMBEDDING \<and> is_model_healthy h ModelType.EMBEDDING))"
  by (cases "model r")
     (auto simp add: select_model_def intelligent_selection_not_embedding)

theorem select_model_embedding_only_if_witness:
  "model classification_request = None
   \<and> task_type classification_request \<noteq> TaskType.EMBEDDING
   \<and> select_model gpt4_and_embedding_down classification_request \<noteq> ModelType.EMBEDDING"
  using select_model_embedding_only_if [of classification_request gpt4_and_embedding_down]
  by (simp add: classification_request_def default_request_simp)

section \<open>Routing: the heuristic ladder\<close>

text \<open>
  Claim C4: in heuristic selection (no healthy override, task type other than
  embedding) the branches are tried in a fixed order: \<^verbatim>\<open>require_creativity\<close> first,
  then \<^verbatim>\<open>require_reasoning\<close>, then the task type. A request with
  \<^verbatim>\<open>require_creativity\<close> set is routed to the creativity branch's model whatever its
  task type. In the capability matrix that model, \<^verbatim>\<open>GPT4\<close>, has the highest
  creativity among the models that list the general task, and the model of the
  reasoning branch, \<^verbatim>\<open>CLAUDE_3_OPUS\<close>, has a reasoning score no model exceeds.
\<close>

theorem heuristic_priority_order:
  assumes "\<forall>m. model r = Some m \<longrightarrow> \<not> is_model_healthy h m"
    and "task_type r \<noteq> TaskType.EMBEDDING"
  shows "select_model h r = intelligent_selection r
       \<and> (require_creativity r \<longrightarrow> select_model h r = GPT4)
       \<and> (\<not> require_creativity r \<and> require_reasoning r \<longrightarrow> select_model h r = CLAUDE_3_OPUS)
       \<and> (\<not> require_creativity r \<and> \<not> require_reasoning r \<longrightarrow>
            select_model h r =
              (case task_type r of
                 CREATIVE \<Rightarrow> GPT4
               | REASONING \<Rightarrow> CLAUDE_3_OPUS
               | CLASSIFICATION \<Rightarrow> GPT35_TURBO
               | EXTRACTION \<Rightarrow>
                   if length (content r) \<le> 2000 then GPT35_TURBO else CLAUDE_3_SONNET
               | SUMMARIZATION \<Rightarrow> GEMINI_PRO
               | _ \<Rightarrow> GPT35_TURBO))
       \<and> (\<exists>c. MODEL_CAPABILITIES GPT4 = Some c \<and> GENERAL \<in> set (tasks c) \<and>
             (\<forall>m' c'. MODEL_CAPABILITIES m' = Some c' \<and> GENERAL \<in> set (tasks c')
                \<longrightarrow> creativity c' \<le> creativity c))
       \<and> (\<exists>c. MODEL_CAPABILITIES CLAUDE_3_OPUS = Some c \<and>
             (\<forall>m' c'. MODEL_CAPABILITIES m' = Some c' \<longrightarrow> reasoning c' \<le> reasoning c))"
proof -
  have ladder: "select_model h r = intelligent_selection r"
    using assms by (simp add: select_model_no_healthy_override)
  have by_task: "\<not> require_creativity r \<and> \<not> require_reasoning r \<longrightarrow>
      intelligent_selection r =
        (case task_type r of
           CREATIVE \<Rightarrow> GPT4
         | REASONING \<Rightarrow> CLAUDE_3_OPUS
         | CLASSIFICATION \<Rightarrow> GPT35_TURBO
         | EXTRACTION \<Rightarrow>
             if length (content r) \<le> 2000 then GPT35_TURBO else CLAUDE_3_SONNET
         | SUMMARIZATION \<Rightarrow> GEMINI_PRO
         | _ \<Rightarrow> GPT35_TURBO)"
    by (cases "task_type r") (simp_all add: intelligent_selection_def)
  have creative: "\<forall>m' c'. MODEL_CAPABILITIES m' = Some c' \<and> GENERAL \<in> set (tasks c')
      \<longrightarrow> creativity c' \<le> 0.9"
  proof (intro allI impI)
    fix m' c'
    assume "MODEL_CAPABILITIES m' = Some c' \<and> GENERAL \<in> set (tasks c')"
    then show "creativity c' \<le> 0.9" by (cases m') auto
  qed
  have reason: "\<forall>m' c'. MODEL_CAPABILITIES m' = Some c' \<longrightarrow> reasoning c' \<le> 0.95"
  proof (intro allI impI)
    fix m' c'
    assume "MODEL_CAPABILITIES m' = Some c'"
    then show "reasoning c' \<le> 0.95" by (cases m') auto
  qed
  from ladder by_task creative reason show ?thesis
    by (simp add: intelligent_selection_def)
qed

theorem heuristic_priority_order_witness:
  "task_type classification_request = CLASSIFICATION
   \<and> require_creativity classification_request
   \<and> select_model init_model_health classification_request = GPT4"
  using heuristic_priority_order [of classification_request init_model_health]
  by (simp add: classification_request_def default_request_simp intelligent_selection_def)

text \<open>
  Claim C8: an extraction-typed request that reaches heuristic selection (no healthy
  override, \<^verbatim>\<open>require_creativity\<close> and \<^verbatim>\<open>require_reasoning\<close> both false) is routed by
  the length of its content: to the fast model \<^verbatim>\<open>GPT35_TURBO\<close> when the content has
  at most 2000 characters, to \<^verbatim>\<open>CLAUDE_3_SONNET\<close>, which has the larger context
  window, otherwise.
\<close>

theorem select_model_extraction_by_length:
  assumes "task_type r = EXTRACTION"
    and "\<forall>m. model r = Some m \<longrightarrow> \<not> is_model_healthy h m"
    and "\<not> require_creativity r" and "\<not> require_reasoning r"
  shows "select_model h r =
           (if length (content r) \<le> 2000 then GPT35_TURBO else CLAUDE_3_SONNET)
       \<and> (\<exists>fast large. MODEL_CAPABILITIES GPT35_TURBO = Some fast \<and>
             MODEL_CAPABILITIES CLAUDE_3_SONNET = Some large \<and>
             speed large < speed fast \<and> context_window fast < context_window large)"
  using assms by (simp add: select_model_no_healthy_override intelligent_selection_def)

theorem select_model_extraction_by_length_witness:
  "select_model init_model_health (extraction_request 2500) = CLAUDE_3_SONNET
   \<and> select_model init_model_health (extraction_request 500) = GPT35_TURBO
   \<and> select_model init_model_health (extraction_request 2000) = GPT35_TURBO
   \<and> select_model init_model_health (extraction_request 2001) = CLAUDE_3_SONNET"
  using select_model_extraction_by_length [of "extraction_request 2500" init_model_health]
    select_model_extraction_by_length [of "extraction_request 500" init_model_health]
    select_model_extraction_by_length [of "extraction_request 2000" init_model_health]
    select_model_extraction_by_length [of "extraction_request 2001" init_model_health]
  by (simp add: extraction_request_def default_request_simp)

section \<open>Routing: fallback and admissibility\<close>

text \<open>
  Claim C6: \<^verbatim>\<open>get_fallback_model\<close> maps every model to one designated alternate,
  the embedding model to none; the alternate is a model other than the failed one and
  never the embedding model (\<^verbatim>\<open>GPT4\<close> and \<^verbatim>\<open>CLAUDE_3_OPUS\<close> stand in for each
  other, so do \<^verbatim>\<open>GPT35_TURBO\<close> and \<^verbatim>\<open>CLAUDE_3_SONNET\<close>, and \<^verbatim>\<open>GEMINI_PRO\<close>
  falls back to \<^verbatim>\<open>GPT4\<close>); it returns the alternate exactly when the alternate is
  healthy and \<^verbatim>\<open>None\<close> otherwise, so it never goes further than one hop and never
  returns the failed model; and its result depends on nothing but the failed model and
  the health of its alternate.
\<close>

theorem get_fallback_model_one_hop:
  "(fallback_map m = None \<longleftrightarrow> m = ModelType.EMBEDDING)
   \<and> (get_fallback_model h m = Some f \<longleftrightarrow> fallback_map m = Some f \<and> is_model_healthy h f)
   \<and> (get_fallback_model h m = None \<longleftrightarrow>
        (\<forall>f. fallback_map m = Some f \<longrightarrow> \<not> is_model_healthy h f))
   \<and> ((\<forall>f. fallback_map m = Some f \<longrightarrow> is_model_healthy h f = is_model_healthy h' f)
        \<longrightarrow> get_fallback_model h m = get_fallback_model h' m)
   \<and> fallback_map m \<noteq> Some m
   \<and> fallback_map m \<noteq> Some ModelType.EMBEDDING
   \<and> get_fallback_model h m \<noteq> Some m
   \<and> get_fallback_model h m \<noteq> Some ModelType.EMBEDDING
   \<and> (\<forall>f g. fallback_map m = Some f \<and> fallback_map f = Some g \<and> g \<noteq> f \<and>
          \<not> is_model_healthy h f \<longrightarrow> get_fallback_model h m \<noteq> Some g)
   \<and> fallback_map GPT4 = Some CLAUDE_3_OPUS
   \<and> fallback_map CLAUDE_3_OPUS = Some GPT4
   \<and> fallback_map GPT35_TURBO = Some CLAUDE_3_SONNET
   \<and> fallback_map CLAUDE_3_SONNET = Some GPT35_TURBO
   \<and> fallback_map GEMINI_PRO = Some GPT4"
proof -
  have designated: "fallback_map m \<noteq> Some m \<and> fallback_map m \<noteq> Some ModelType.EMBEDDING"
    by (cases m) simp_all
  have result: "get_fallback_model h m = Some f \<longleftrightarrow>
      fallback_map m = Some f \<and> is_model_healthy h f" for f
    by (cases "fallback_map m") (auto simp add: get_fallback_model_def)
  have none: "get_fallback_model h m = None \<longleftrightarrow>
      (\<forall>f. fallback_map m = Some f \<longrightarrow> \<not> is_model_healthy h f)"
    by (cases "fallback_map m") (auto simp add: get_fallback_model_def)
  have frame: "(\<forall>f. fallback_map m = Some f \<longrightarrow> is_model_healthy h f = is_model_healthy h' f)
      \<longrightarrow> get_fallback_model h m = get_fallback_model h' m"
    by (cases "fallback_map m") (auto simp add: get_fallback_model_def)
  have embedding: "fallback_map m = None \<longleftrightarrow> m = ModelType.EMBEDDING"
    by (cases m) simp_all
  have no_chain: "\<forall>f g. fallback_map m = Some f \<and> fallback_map f = Some g \<and> g \<noteq> f \<and>
      \<not> is_model_healthy h f \<longrightarrow> get_fallback_model h m \<noteq> Some g"
    using result by auto
  from designated result [of m] result [of ModelType.EMBEDDING]
  have not_self: "get_fallback_model h m \<noteq> Some m
      \<and> get_fallback_model h m \<noteq> Some ModelType.EMBEDDING"
    by simp
  from embedding result [of f] none frame designated not_self no_chain show ?thesis
    by simp
qed

theorem get_fallback_model_one_hop_witness:
  "get_fallback_model gpt4_down GEMINI_PRO = None
   \<and> fallback_map GEMINI_PRO = Some GPT4
   \<and> fallback_map GPT4 = Some CLAUDE_3_OPUS
   \<and> is_model_healthy gpt4_down CLAUDE_3_OPUS
   \<and> get_fallback_model gpt4_down GEMINI_PRO \<noteq> Some CLAUDE_3_OPUS
   \<and> get_fallback_model gpt4_down GPT4 = Some CLAUDE_3_OPUS
   \<and> get_fallback_model init_model_health GPT35_TURBO = Some CLAUDE_3_SONNET
   \<and> get_fallback_model init_model_health GPT35_TURBO \<noteq> Some GPT35_TURBO"
  using get_fallback_model_one_hop [of GEMINI_PRO gpt4_down GPT4 gpt4_down]
    get_fallback_model_one_hop [of GPT4 gpt4_down CLAUDE_3_OPUS gpt4_down]
    get_fallback_model_one_hop
      [of GPT35_TURBO init_model_health CLAUDE_3_SONNET init_model_health]
  by (simp add: gpt4_down_healthy init_healthy)

text \<open>
  Claim C7: \<^verbatim>\<open>validate_routing_decision\<close> succeeds exactly when the selected model
  is healthy, has an entry in the capability table, and the request's
  \<^verbatim>\<open>max_tokens\<close>, if set, does not exceed the entry's context window (so it succeeds
  at \<^verbatim>\<open>max_tokens == context_window\<close>); a failure carries a reason and a success
  carries none; the task type has no influence on the returned pair, a task type
  outside the entry's task list only adds a logged warning. Context windows are not
  negative, as for every entry of the table of the source.
\<close>

theorem validate_routing_decision_admissible:
  assumes "\<forall>c. table m = Some c \<longrightarrow> 0 \<le> context_window c"
  shows "(fst (fst (validate_routing_decision table h r m)) \<longleftrightarrow>
            is_model_healthy h m \<and>
            (\<exists>c. table m = Some c \<and> (\<forall>n. max_tokens r = Some n \<longrightarrow> n \<le> context_window c)))
       \<and> (snd (fst (validate_routing_decision table h r m)) = None \<longleftrightarrow>
            fst (fst (validate_routing_decision table h r m)))
       \<and> fst (validate_routing_decision table h (r\<lparr>task_type := t\<rparr>) m) =
            fst (validate_routing_decision table h r m)
       \<and> (snd (validate_routing_decision table h r m) \<noteq> [] \<longleftrightarrow>
            is_model_healthy h m \<and> (\<exists>c. table m = Some c \<and> task_type r \<notin> set (tasks c)))
       \<and> (\<forall>m'. \<exists>c. MODEL_CAPABILITIES m' = Some c \<and> 0 < context_window c)"
proof (cases "is_model_healthy h m")
  case False
  then show ?thesis
    by (simp add: validate_routing_decision_def MODEL_CAPABILITIES_total)
next
  case healthy: True
  show ?thesis
  proof (cases "table m")
    case None
    with healthy show ?thesis
      by (simp add: validate_routing_decision_def MODEL_CAPABILITIES_total)
  next
    case (Some c)
    with assms have "0 \<le> context_window c" by simp
    from exceeds_iff [OF this, of "max_tokens r"] healthy Some
    show ?thesis
      by (auto simp add: validate_routing_decision_def Let_def MODEL_CAPABILITIES_total)
  qed
qed

theorem validate_routing_decision_admissible_witness:
  "fst (validate_routing_decision MODEL_CAPABILITIES init_model_health boundary_request GPT4) =
     (True, None)
   \<and> snd (validate_routing_decision MODEL_CAPABILITIES init_model_health boundary_request GPT4)
       \<noteq> []
   \<and> \<not> fst (fst (validate_routing_decision MODEL_CAPABILITIES init_model_health
          (boundary_request\<lparr>max_tokens := Some 128001\<rparr>) GPT4))
   \<and> \<not> fst (fst (validate_routing_decision MODEL_CAPABILITIES gpt4_down boundary_request GPT4))
   \<and> \<not> fst (fst (validate_routing_decision Map.empty init_model_health boundary_request GPT4))"
  using
    validate_routing_decision_admissible
      [of MODEL_CAPABILITIES GPT4 init_model_health boundary_request]
    validate_routing_decision_admissible
      [of MODEL_CAPABILITIES GPT4 init_model_health
          "boundary_request\<lparr>max_tokens := Some 128001\<rparr>"]
    validate_routing_decision_admissible
      [of MODEL_CAPABILITIES GPT4 gpt4_down boundary_request]
    validate_routing_decision_admissible
      [of Map.empty GPT4 init_model_health boundary_request]
  by (simp add: boundary_request_def default_request_simp init_healthy gpt4_down_healthy
        prod_eq_iff)

section \<open>Protocol validator\<close>

text \<open>
  Claim C5 lists the rules of \<^verbatim>\<open>validate_request\<close> and says that a request whose
  \<^verbatim>\<open>max_tokens\<close> is present and equal to 0 is rejected with the
  \<^verbatim>\<open>max_tokens\<close> message. The test \<^verbatim>\<open>request.max_tokens and request.max_tokens <= 0\<close>
  is false for 0, so such a request passes: the code accepts a request that its own
  message (\<^verbatim>\<open>max_tokens must be positive\<close>) and its comparison \<^verbatim>\<open><= 0\<close> rule out.
\<close>

theorem validate_request_max_tokens_zero:
  "validate_request zero_tokens_request = (True, None)"
  by (simp add: validate_request_def zero_tokens_request_def default_request_simp
        truthy_def lit_def)

text \<open>
  For every other setting of \<^verbatim>\<open>max_tokens\<close> the four rules hold in the order the
  claim gives them.
\<close>

lemma validate_request_rules:
  assumes "max_tokens r \<noteq> Some 0"
  shows "validate_request r =
     (if content r = [] \<and> task_type r \<noteq> TaskType.EMBEDDING then
        (False, Some ''Request content cannot be empty'')
      else if \<exists>n. max_tokens r = Some n \<and> n \<le> 0 then
        (False, Some ''max_tokens must be positive'')
      else if temperature r < 0 \<or> 2 < temperature r then
        (False, Some ''temperature must be between 0 and 2.0'')
      else if cache_ttl r < 0 then
        (False, Some ''cache_ttl cannot be negative'')
      else (True, None))"
  using assms by (cases "max_tokens r") (auto simp add: validate_request_def truthy_def)

section \<open>Serialisation\<close>

text \<open>
  Claim C9, as stated, says that a request or a response can be rebuilt in every field
  from its \<^verbatim>\<open>to_dict\<close>. \<^verbatim>\<open>MCPRequest.to_dict\<close> leaves out \<^verbatim>\<open>context\<close> and
  \<^verbatim>\<open>use_context\<close>, and \<^verbatim>\<open>MCPResponse.to_dict\<close> leaves out \<^verbatim>\<open>context\<close>: two valid
  requests (and two valid responses) that differ in those fields have the same
  dictionary, so no reading of the dictionary gives both back.
\<close>

theorem to_dict_omits_context_counterexample:
  "MCPRequest_to_dict request_with_context = MCPRequest_to_dict request_without_context
   \<and> request_with_context \<noteq> request_without_context
   \<and> validate_request request_with_context = (True, None)
   \<and> validate_request request_without_context = (True, None)
   \<and> MCPResponse_to_dict response_with_context = MCPResponse_to_dict default_response
   \<and> response_with_context \<noteq> default_response
   \<and> validate_response response_with_context = (True, None)
   \<and> validate_response default_response = (True, None)"
  by (simp add: MCPRequest_to_dict_def MCPResponse_to_dict_def request_with_context_def
        request_without_context_def response_with_context_def default_response_def
        default_request_simp validate_request_def validate_response_def truthy_def lit_def)

text \<open>
  Claim C9, amended: the dictionary of a request determines exactly the fields it
  emits: two requests have the same \<^verbatim>\<open>to_dict\<close> if and only if they agree on
  \<^verbatim>\<open>request_id\<close>, \<^verbatim>\<open>content\<close>, \<^verbatim>\<open>task_type\<close>, \<^verbatim>\<open>model\<close>, \<^verbatim>\<open>priority\<close>,
  \<^verbatim>\<open>require_reasoning\<close>, \<^verbatim>\<open>require_creativity\<close>, \<^verbatim>\<open>max_tokens\<close>,
  \<^verbatim>\<open>temperature\<close>, \<^verbatim>\<open>cache_enabled\<close>, \<^verbatim>\<open>cache_ttl\<close>, \<^verbatim>\<open>agent_name\<close>,
  \<^verbatim>\<open>metadata\<close> and on the ISO-8601 text of \<^verbatim>\<open>timestamp\<close>; \<^verbatim>\<open>context\<close> and
  \<^verbatim>\<open>use_context\<close> are not serialised. Likewise for a response and every field but
  \<^verbatim>\<open>context\<close>.
\<close>

theorem to_dict_determines_emitted_fields:
  "(MCPRequest_to_dict r = MCPRequest_to_dict r' \<longleftrightarrow>
      request_id r = request_id r' \<and> content r = content r' \<and>
      task_type r = task_type r' \<and> model r = model r' \<and> priority r = priority r' \<and>
      require_reasoning r = require_reasoning r' \<and>
      require_creativity r = require_creativity r' \<and> max_tokens r = max_tokens r' \<and>
      temperature r = temperature r' \<and> cache_enabled r = cache_enabled r' \<and>
      cache_ttl r = cache_ttl r' \<and> agent_name r = agent_name r' \<and>
      isoformat (timestamp r) = isoformat (timestamp r') \<and> metadata r = metadata r')
   \<and> (MCPResponse_to_dict s = MCPResponse_to_dict s' \<longleftrightarrow>
      MCPResponse.request_id s = MCPResponse.request_id s' \<and>
      MCPResponse.content s = MCPResponse.content s' \<and> model_used s = model_used s' \<and>
      success s = success s' \<and> latency_ms s = latency_ms s' \<and>
      tokens_used s = tokens_used s' \<and> cached s = cached s' \<and>
      MCPResponse.error s = MCPResponse.error s' \<and> fallback_used s = fallback_used s' \<and>
      fallback_model s = fallback_model s' \<and>
      isoformat (MCPResponse.timestamp s) = isoformat (MCPResponse.timestamp s') \<and>
      MCPResponse.metadata s = MCPResponse.metadata s')"
  by (auto simp add: MCPRequest_to_dict_def MCPResponse_to_dict_def lit_eq_iff
        ModelType_value_inj TaskType_value_inj MCPPriority_value_inj
      split: option.splits)

theorem to_dict_determines_emitted_fields_witness:
  "MCPRequest_to_dict request_with_context \<noteq>
     MCPRequest_to_dict (request_with_context\<lparr>agent_name := Some (lit ''planner'')\<rparr>)
   \<and> MCPResponse_to_dict default_response \<noteq>
       MCPResponse_to_dict (default_response\<lparr>fallback_model := Some GEMINI_PRO\<rparr>)"
  using to_dict_determines_emitted_fields
    [of request_with_context "request_with_context\<lparr>agent_name := Some (lit ''planner'')\<rparr>"
        default_response "default_response\<lparr>fallback_model := Some GEMINI_PRO\<rparr>"]
  by (simp add: request_with_context_def default_request_simp default_response_def)

end
